theory Spec2Isabelle
  imports Complex_Main "HOL-Library.Multiset"
begin

section \<open>JavaScript values\<close>

text \<open>
  The server (\<^verbatim>\<open>src/server.js\<close>) is an Express application. Every request body is the
  result of \<^verbatim>\<open>bodyParser.json()\<close>, so the variables the handlers destructure from it
  hold JSON values, or \<^verbatim>\<open>undefined\<close> when the key is absent.

  A JavaScript string is a sequence of UTF-16 code units. It is modelled by \<open>string\<close>;
  a \<open>char\<close> stands for one code unit below 256. Every character the handlers test for
  is ASCII.

  A JavaScript number is an IEEE-754 double. Every finite double is a rational number and
  is modelled by that rational (\<open>Fin\<close>); the zero of either sign is \<open>Fin 0\<close> (the
  handlers never divide by a variable, and \<^verbatim>\<open>toFixed\<close>, truthiness, comparison and
  multiplication do not tell the two zeros apart).
\<close>

datatype jsnum = NaN | PosInf | NegInf | Fin rat

datatype jsval =
    JUndefined
  | JNull
  | JBool bool
  | JNum jsnum
  | JStr string
  | JArr "jsval list"
  | JObj "(string \<times> jsval) list"

text \<open>ToBoolean, as used by \<^verbatim>\<open>!x\<close> and \<^verbatim>\<open>x && y\<close>.\<close>

fun truthy :: "jsval \<Rightarrow> bool" where
  "truthy JUndefined = False"
| "truthy JNull = False"
| "truthy (JBool b) = b"
| "truthy (JNum NaN) = False"
| "truthy (JNum (Fin x)) = (x \<noteq> 0)"
| "truthy (JNum _) = True"
| "truthy (JStr s) = (s \<noteq> [])"
| "truthy (JArr _) = True"
| "truthy (JObj _) = True"

text \<open>
  Strict equality \<^verbatim>\<open>===\<close>. \<^verbatim>\<open>NaN\<close> equals nothing; two objects are equal only when
  they are the same object, and the two sides of every comparison in the handlers come
  from different parses, so objects and arrays compare unequal.
\<close>

fun strict_equals :: "jsval \<Rightarrow> jsval \<Rightarrow> bool" where
  "strict_equals JUndefined JUndefined = True"
| "strict_equals JNull JNull = True"
| "strict_equals (JBool a) (JBool b) = (a = b)"
| "strict_equals (JNum NaN) (JNum _) = False"
| "strict_equals (JNum _) (JNum NaN) = False"
| "strict_equals (JNum a) (JNum b) = (a = b)"
| "strict_equals (JStr a) (JStr b) = (a = b)"
| "strict_equals _ _ = False"

section \<open>Strings\<close>

text \<open>The code unit of a character.\<close>

definition code_unit :: "char \<Rightarrow> nat" where
  "code_unit c = of_char c"

text \<open>The ranges \<^verbatim>\<open>0-9\<close> (also \<^verbatim>\<open>\d\<close>), \<^verbatim>\<open>a-z\<close> and \<^verbatim>\<open>A-Z\<close> of a character class.\<close>

definition is_digit :: "char \<Rightarrow> bool" where
  "is_digit c = (48 \<le> code_unit c \<and> code_unit c \<le> 57)"

definition is_lower :: "char \<Rightarrow> bool" where
  "is_lower c = (97 \<le> code_unit c \<and> code_unit c \<le> 122)"

definition is_upper :: "char \<Rightarrow> bool" where
  "is_upper c = (65 \<le> code_unit c \<and> code_unit c \<le> 90)"

text \<open>
  The white space and line terminators \<^verbatim>\<open>String.prototype.trim\<close> removes, among the
  code units below 256: TAB, LF, VT, FF, CR, SP and NBSP.
\<close>

definition is_space :: "char \<Rightarrow> bool" where
  "is_space c = (code_unit c \<in> {9, 10, 11, 12, 13, 32, 160})"

definition trim :: "string \<Rightarrow> string" where
  "trim s = rev (dropWhile is_space (rev (dropWhile is_space s)))"

text \<open>
  \<^verbatim>\<open>String.prototype.toLowerCase\<close> on one code unit below 256: the ASCII capitals, and
  the Latin-1 capitals U+00C0 to U+00DE except the multiplication sign U+00D7.
\<close>

definition lower_char :: "char \<Rightarrow> char" where
  "lower_char c =
     (let n = code_unit c
      in if (65 \<le> n \<and> n \<le> 90) \<or> (192 \<le> n \<and> n \<le> 222 \<and> n \<noteq> 215)
         then char_of (n + 32) else c)"

text \<open>
  \<^verbatim>\<open>x.toLowerCase()\<close> on a JSON value: only a string has the method; on anything else
  the call throws a TypeError (\<open>None\<close>).
\<close>

fun toLowerCase :: "jsval \<Rightarrow> string option" where
  "toLowerCase (JStr s) = Some (map lower_char s)"
| "toLowerCase _ = None"

section \<open>Regular expressions\<close>

text \<open>
  The constructs the source's regular expressions use: character classes, concatenation,
  \<^verbatim>\<open>+\<close>, \<^verbatim>\<open>{n}\<close> and \<^verbatim>\<open>{n,}\<close>. All of them are anchored with \<^verbatim>\<open>^\<close> and \<^verbatim>\<open>$\<close> and have no flag,
  so \<^verbatim>\<open>re.test(s)\<close> holds exactly when the whole of \<open>s\<close> is in the language of the
  expression. Membership is decided by derivatives.
\<close>

datatype regex =
    Zero
  | One
  | Class "char \<Rightarrow> bool"
  | Alt regex regex
  | Seq regex regex
  | Star regex

fun nullable :: "regex \<Rightarrow> bool" where
  "nullable Zero = False"
| "nullable One = True"
| "nullable (Class _) = False"
| "nullable (Alt r s) = (nullable r \<or> nullable s)"
| "nullable (Seq r s) = (nullable r \<and> nullable s)"
| "nullable (Star _) = True"

fun deriv :: "char \<Rightarrow> regex \<Rightarrow> regex" where
  "deriv c Zero = Zero"
| "deriv c One = Zero"
| "deriv c (Class P) = (if P c then One else Zero)"
| "deriv c (Alt r s) = Alt (deriv c r) (deriv c s)"
| "deriv c (Seq r s) =
     (if nullable r then Alt (Seq (deriv c r) s) (deriv c s) else Seq (deriv c r) s)"
| "deriv c (Star r) = Seq (deriv c r) (Star r)"

fun regex_test :: "regex \<Rightarrow> string \<Rightarrow> bool" where
  "regex_test r [] = nullable r"
| "regex_test r (c # cs) = regex_test (deriv c r) cs"

definition Plus :: "regex \<Rightarrow> regex" where
  "Plus r = Seq r (Star r)"

fun Times :: "nat \<Rightarrow> regex \<Rightarrow> regex" where
  "Times 0 r = One"
| "Times (Suc n) r = Seq r (Times n r)"

definition AtLeast :: "nat \<Rightarrow> regex \<Rightarrow> regex" where
  "AtLeast n r = Seq (Times n r) (Star r)"

definition Chr :: "char \<Rightarrow> regex" where
  "Chr c = Class (\<lambda>x. x = c)"

section \<open>Sanitizer\<close>

text \<open>
  \<^verbatim>\<open>const sanitizeString = (str) => {
    if (typeof str !== 'string') return '';
    return str.trim().replace(/[^a-zA-Z0-9@._-]/g, '');
  };\<close>
\<close>

text \<open>The characters of the class \<^verbatim>\<open>[a-zA-Z0-9@._-]\<close>.\<close>

definition sanitize_class :: "char \<Rightarrow> bool" where
  "sanitize_class c =
     (is_lower c \<or> is_upper c \<or> is_digit c \<or> c \<in> {CHR ''@'', CHR ''.'', CHR ''_'', CHR ''-''})"

text \<open>\<^verbatim>\<open>s.replace(/[^...]/g, '')\<close>: every character matching the negated class is deleted.\<close>

definition replace_all_not :: "(char \<Rightarrow> bool) \<Rightarrow> string \<Rightarrow> string" where
  "replace_all_not keep s = filter keep s"

fun sanitizeString :: "jsval \<Rightarrow> string" where
  "sanitizeString (JStr str) = replace_all_not sanitize_class (trim str)"
| "sanitizeString _ = []"

text \<open>\<^verbatim>\<open>const phoneRegex = /^\d{10}$/;\<close> (line 198)\<close>

definition phoneRegex :: regex where
  "phoneRegex = Times 10 (Class is_digit)"

text \<open>\<^verbatim>\<open>const emailRegex = /^[a-zA-Z0-9._-]+@[a-zA-Z0-9.-]+\.[a-zA-Z]{2,}$/;\<close> (line 204)\<close>

definition emailRegex :: regex where
  "emailRegex =
     Seq (Plus (Class (\<lambda>c. is_lower c \<or> is_upper c \<or> is_digit c
                          \<or> c \<in> {CHR ''.'', CHR ''_'', CHR ''-''})))
    (Seq (Chr CHR ''@'')
    (Seq (Plus (Class (\<lambda>c. is_lower c \<or> is_upper c \<or> is_digit c
                          \<or> c \<in> {CHR ''.'', CHR ''-''})))
    (Seq (Chr CHR ''.'')
         (AtLeast 2 (Class (\<lambda>c. is_lower c \<or> is_upper c))))))"

text \<open>\<^verbatim>\<open>const validStatuses = ['pending', 'success', 'failed'];\<close> (lines 210 and 273)\<close>

definition validStatuses :: "string list" where
  "validStatuses = [''pending'', ''success'', ''failed'']"

section \<open>Numbers\<close>

text \<open>
  What the engine does with numbers and the source does not fix is taken as a parameter:
  \<^item> \<open>round_number\<close>: the double nearest to a real result (every arithmetic operation and
    every conversion from a decimal literal rounds its exact result);
  \<^item> \<open>shortest_digits\<close>: Number::toString of a positive finite double (ECMAScript leaves
    the last digit to the implementation).
  Every theorem below holds for every such engine. \<open>binary64\<close>, further down, is the
  engine of IEEE-754 round-to-nearest-even, at which the examples are evaluated.
\<close>

record js_engine =
  round_number :: "rat \<Rightarrow> jsnum"
  shortest_digits :: "rat \<Rightarrow> string"

text \<open>\<^verbatim>\<open>a * b\<close>, \<^verbatim>\<open>a - b\<close> and \<^verbatim>\<open>a / b\<close> on numbers.\<close>

fun js_mul :: "js_engine \<Rightarrow> jsnum \<Rightarrow> jsnum \<Rightarrow> jsnum" where
  "js_mul eng (Fin x) (Fin y) = round_number eng (x * y)"
| "js_mul eng NaN _ = NaN"
| "js_mul eng _ NaN = NaN"
| "js_mul eng (Fin x) PosInf = (if x = 0 then NaN else if 0 < x then PosInf else NegInf)"
| "js_mul eng (Fin x) NegInf = (if x = 0 then NaN else if 0 < x then NegInf else PosInf)"
| "js_mul eng PosInf (Fin y) = (if y = 0 then NaN else if 0 < y then PosInf else NegInf)"
| "js_mul eng NegInf (Fin y) = (if y = 0 then NaN else if 0 < y then NegInf else PosInf)"
| "js_mul eng PosInf PosInf = PosInf"
| "js_mul eng PosInf NegInf = NegInf"
| "js_mul eng NegInf PosInf = NegInf"
| "js_mul eng NegInf NegInf = PosInf"

fun js_sub :: "js_engine \<Rightarrow> jsnum \<Rightarrow> jsnum \<Rightarrow> jsnum" where
  "js_sub eng (Fin x) (Fin y) = round_number eng (x - y)"
| "js_sub eng NaN _ = NaN"
| "js_sub eng _ NaN = NaN"
| "js_sub eng (Fin x) PosInf = NegInf"
| "js_sub eng (Fin x) NegInf = PosInf"
| "js_sub eng PosInf (Fin y) = PosInf"
| "js_sub eng NegInf (Fin y) = NegInf"
| "js_sub eng PosInf PosInf = NaN"
| "js_sub eng PosInf NegInf = PosInf"
| "js_sub eng NegInf PosInf = NegInf"
| "js_sub eng NegInf NegInf = NaN"

text \<open>
  The only divisor in the source is the literal \<^verbatim>\<open>100\<close>. A zero divisor is read as \<open>+0\<close>.
\<close>

fun js_div :: "js_engine \<Rightarrow> jsnum \<Rightarrow> jsnum \<Rightarrow> jsnum" where
  "js_div eng (Fin x) (Fin y) =
     (if y = 0 then (if x = 0 then NaN else if 0 < x then PosInf else NegInf)
      else round_number eng (x / y))"
| "js_div eng NaN _ = NaN"
| "js_div eng _ NaN = NaN"
| "js_div eng (Fin x) _ = Fin 0"
| "js_div eng PosInf (Fin y) = (if 0 \<le> y then PosInf else NegInf)"
| "js_div eng NegInf (Fin y) = (if 0 \<le> y then NegInf else PosInf)"
| "js_div eng _ _ = NaN"

text \<open>\<^verbatim>\<open>a < b\<close>, \<^verbatim>\<open>a <= b\<close> and \<^verbatim>\<open>a > b\<close> on numbers: false when either side is \<^verbatim>\<open>NaN\<close>.\<close>

fun js_less :: "jsnum \<Rightarrow> jsnum \<Rightarrow> bool" where
  "js_less NaN _ = False"
| "js_less _ NaN = False"
| "js_less (Fin x) (Fin y) = (x < y)"
| "js_less _ NegInf = False"
| "js_less PosInf _ = False"
| "js_less NegInf _ = True"
| "js_less (Fin x) PosInf = True"

fun js_le :: "jsnum \<Rightarrow> jsnum \<Rightarrow> bool" where
  "js_le NaN _ = False"
| "js_le _ NaN = False"
| "js_le a b = (a = b \<or> js_less a b)"

definition js_greater :: "jsnum \<Rightarrow> jsnum \<Rightarrow> bool" where
  "js_greater a b = js_less b a"

definition isNaN :: "jsnum \<Rightarrow> bool" where
  "isNaN x = (x = NaN)"

subsection \<open>Numbers to strings\<close>

text \<open>The decimal digits of a non-negative integer.\<close>

function decimal :: "int \<Rightarrow> string" where
  "decimal n =
     (if n < 10 then [char_of (48 + n)]
      else decimal (n div 10) @ [char_of (48 + n mod 10)])"
  by pat_completeness auto
termination
  by (relation "measure nat") auto

declare decimal.simps [simp del]

text \<open>Number::toString (radix 10).\<close>

fun number_to_string :: "js_engine \<Rightarrow> jsnum \<Rightarrow> string" where
  "number_to_string eng NaN = ''NaN''"
| "number_to_string eng PosInf = ''Infinity''"
| "number_to_string eng NegInf = ''-Infinity''"
| "number_to_string eng (Fin x) =
     (if x = 0 then ''0''
      else if x < 0 then ''-'' @ shortest_digits eng (- x)
      else shortest_digits eng x)"

text \<open>
  \<^verbatim>\<open>Number.prototype.toFixed(f)\<close>: for a finite \<open>x\<close> below \<open>10\<^sup>2\<^sup>1\<close> in magnitude, the
  integer \<open>n\<close> with \<open>n / 10\<^sup>f\<close> closest to \<open>|x|\<close> (the larger of two), written with \<open>f\<close>
  digits after the point and a sign when \<open>x < 0\<close>.
\<close>

definition fixed_digits :: "nat \<Rightarrow> rat \<Rightarrow> string" where
  "fixed_digits f x =
     (let n = \<lfloor>x * 10 ^ f + 1 / 2\<rfloor>;
          m = decimal n;
          m = (if length m \<le> f then replicate (f + 1 - length m) CHR ''0'' @ m else m);
          k = length m
      in if f = 0 then m else take (k - f) m @ ''.'' @ drop (k - f) m)"

fun toFixed :: "js_engine \<Rightarrow> nat \<Rightarrow> jsnum \<Rightarrow> string" where
  "toFixed eng f (Fin x) =
     (if 10 ^ 21 \<le> \<bar>x\<bar> then number_to_string eng (Fin x)
      else if x < 0 then ''-'' @ fixed_digits f (- x)
      else fixed_digits f x)"
| "toFixed eng f x = number_to_string eng x"

text \<open>
  ToString of a JSON value, as a template literal \<^verbatim>\<open>`${x}`\<close> and \<^verbatim>\<open>parseFloat(x)\<close> apply
  it; \<open>None\<close> when it throws a TypeError.
  \<^item> An array joins its elements with commas, \<^verbatim>\<open>null\<close> and \<^verbatim>\<open>undefined\<close> elements as
    empty strings, and throws when an element does.
  \<^item> An object parsed from JSON has only data properties. Without a key \<^verbatim>\<open>toString\<close> of
    its own it inherits \<^verbatim>\<open>Object.prototype.toString\<close> and is \<^verbatim>\<open>[object Object]\<close>. With
    such a key the property is not callable, \<^verbatim>\<open>valueOf\<close> (its own, not callable, or the
    inherited one, which returns the object) gives no primitive either, and the
    conversion throws.
\<close>

fun join :: "string list \<Rightarrow> string" where
  "join [] = []"
| "join [x] = x"
| "join (x # xs) = x @ '','' @ join xs"

fun ToString :: "js_engine \<Rightarrow> jsval \<Rightarrow> string option" where
  "ToString eng JUndefined = Some ''undefined''"
| "ToString eng JNull = Some ''null''"
| "ToString eng (JBool b) = Some (if b then ''true'' else ''false'')"
| "ToString eng (JNum x) = Some (number_to_string eng x)"
| "ToString eng (JStr s) = Some s"
| "ToString eng (JArr xs) =
     map_option join
       (those (map (\<lambda>x. if x = JUndefined \<or> x = JNull then Some [] else ToString eng x) xs))"
| "ToString eng (JObj kvs) =
     (if ''toString'' \<in> set (map fst kvs) then None else Some ''[object Object]'')"

subsection \<open>Strings to numbers\<close>

definition digits_value :: "string \<Rightarrow> int" where
  "digits_value ds = foldl (\<lambda>n c. 10 * n + (int (code_unit c) - 48)) 0 ds"

text \<open>\<open>x \<times> 10\<^sup>e\<close> for an integer \<open>e\<close>.\<close>

definition scale10 :: "rat \<Rightarrow> int \<Rightarrow> rat" where
  "scale10 x e = (if 0 \<le> e then x * 10 ^ nat e else x / 10 ^ nat (- e))"

text \<open>
  ExponentPart: \<^verbatim>\<open>e\<close> or \<^verbatim>\<open>E\<close>, an optional sign, and at least one digit; without a digit
  there is no exponent and the literal ends before the \<^verbatim>\<open>e\<close>.
\<close>

definition exponent_part :: "string \<Rightarrow> int" where
  "exponent_part s =
     (case s of
        [] \<Rightarrow> 0
      | c # t \<Rightarrow>
          if c = CHR ''e'' \<or> c = CHR ''E'' then
            (case t of
               [] \<Rightarrow> 0
             | d # u \<Rightarrow>
                 if d = CHR ''-'' then - digits_value (takeWhile is_digit u)
                 else if d = CHR ''+'' then digits_value (takeWhile is_digit u)
                 else digits_value (takeWhile is_digit t))
          else 0)"

text \<open>
  StrUnsignedDecimalLiteral: the value of the longest prefix that is \<^verbatim>\<open>Infinity\<close>, or
  digits with an optional fraction and exponent, or a point followed by digits; \<open>None\<close>
  when no prefix is one.
\<close>

definition unsigned_literal :: "js_engine \<Rightarrow> bool \<Rightarrow> string \<Rightarrow> jsnum option" where
  "unsigned_literal eng negative s =
     (if take 8 s = ''Infinity'' then Some (if negative then NegInf else PosInf)
      else
        let ip = takeWhile is_digit s;
            r = dropWhile is_digit s;
            fp = (if r \<noteq> [] \<and> hd r = CHR ''.'' then takeWhile is_digit (tl r) else []);
            r' = (if r \<noteq> [] \<and> hd r = CHR ''.'' then dropWhile is_digit (tl r) else r)
        in if ip = [] \<and> fp = [] then None
           else
             let m = of_int (digits_value ip) + of_int (digits_value fp) / 10 ^ length fp;
                 v = scale10 m (exponent_part r')
             in Some (round_number eng (if negative then - v else v)))"

text \<open>
  \<^verbatim>\<open>parseFloat(x)\<close>: ToString, leading white space dropped, an optional sign, then the
  longest literal; \<^verbatim>\<open>NaN\<close> when there is none. It throws (\<open>None\<close>) when ToString does.
\<close>

definition parseFloat_string :: "js_engine \<Rightarrow> string \<Rightarrow> jsnum" where
  "parseFloat_string eng s =
     (let t = dropWhile is_space s;
          r = (case t of
                 [] \<Rightarrow> None
               | c # u \<Rightarrow>
                   if c = CHR ''-'' then unsigned_literal eng True u
                   else if c = CHR ''+'' then unsigned_literal eng False u
                   else unsigned_literal eng False t)
      in case r of None \<Rightarrow> NaN | Some x \<Rightarrow> x)"

definition parseFloat :: "js_engine \<Rightarrow> jsval \<Rightarrow> jsnum option" where
  "parseFloat eng x = map_option (parseFloat_string eng) (ToString eng x)"

subsection \<open>The engine of IEEE-754 binary64\<close>

text \<open>
  Round to nearest, ties to even, with 53 bits of precision, gradual underflow below
  \<open>2\<^sup>-\<^sup>1\<^sup>0\<^sup>2\<^sup>2\<close> and overflow to infinity from \<open>2\<^sup>1\<^sup>0\<^sup>2\<^sup>4\<close>; and the shortest decimal
  digits that round back to the number, laid out as Number::toString does.
\<close>

function bit_length :: "int \<Rightarrow> int" where
  "bit_length n = (if n \<le> 0 then 0 else 1 + bit_length (n div 2))"
  by pat_completeness auto
termination
  by (relation "measure nat") auto

declare bit_length.simps [simp del]

text \<open>\<open>2\<^sup>e \<le> p / q\<close>, for positive \<open>p\<close> and \<open>q\<close>.\<close>

definition pow2_le :: "int \<Rightarrow> int \<Rightarrow> int \<Rightarrow> bool" where
  "pow2_le e p q = (if 0 \<le> e then 2 ^ nat e * q \<le> p else q \<le> p * 2 ^ nat (- e))"

text \<open>
  The double nearest to \<open>x = \<plusminus> p / q\<close>: with \<open>2\<^sup>e \<le> p / q < 2\<^sup>e\<^sup>+\<^sup>1\<close> and \<open>e\<close> no less than
  \<open>-1022\<close>, the multiple \<open>n \<times> 2\<^sup>e\<^sup>-\<^sup>5\<^sup>2\<close> nearest to \<open>p / q\<close>, the even \<open>n\<close> of two; infinite
  when that is \<open>2\<^sup>1\<^sup>0\<^sup>2\<^sup>4\<close> or more.
\<close>

definition round_binary64 :: "rat \<Rightarrow> jsnum" where
  "round_binary64 x =
     (if x = 0 then Fin 0
      else
        let (p0, q) = quotient_of x;
            p = \<bar>p0\<bar>;
            e0 = bit_length p - bit_length q;
            e = max (if pow2_le e0 p q then e0 else e0 - 1) (- 1022);
            s = e - 52;
            num = (if s \<le> 0 then p * 2 ^ nat (- s) else p);
            den = (if s \<le> 0 then q else q * 2 ^ nat s);
            f = num div den;
            r = 2 * (num mod den);
            n = (if r < den then f else if den < r then f + 1
                 else if even f then f else f + 1);
            m = (if 0 < x then n else - n)
        in if 1025 \<le> bit_length n + s then (if 0 < x then PosInf else NegInf)
           else Fin (if s \<le> 0 then Fract m (2 ^ nat (- s)) else of_int (m * 2 ^ nat s)))"

fun leading_zeros :: "nat \<Rightarrow> rat \<Rightarrow> nat" where
  "leading_zeros 0 x = 0"
| "leading_zeros (Suc fuel) x = (if 1 / 10 \<le> x then 0 else Suc (leading_zeros fuel (x * 10)))"

definition decimal_exponent :: "rat \<Rightarrow> int" where
  "decimal_exponent x =
     (if 1 \<le> x then int (length (decimal \<lfloor>x\<rfloor>)) else - int (leading_zeros 400 x))"

fun shortest :: "nat \<Rightarrow> nat \<Rightarrow> int \<Rightarrow> rat \<Rightarrow> nat \<times> int \<times> int" where
  "shortest 0 k n x = (k, \<lfloor>scale10 x (int k - n) + 1 / 2\<rfloor>, n)"
| "shortest (Suc fuel) k n x =
     (let t = scale10 x (int k - n);
          lo = \<lfloor>t\<rfloor>; hi = \<lceil>t\<rceil>;
          near = (if t - of_int lo \<le> of_int hi - t then lo else hi);
          far = (if near = lo then hi else lo);
          ok = (\<lambda>s. 0 < s \<and> round_binary64 (scale10 (of_int s) (n - int k)) = Fin x)
      in if ok near then (k, near, n)
         else if ok far then (k, far, n)
         else shortest fuel (Suc k) n x)"

definition binary64_digits :: "rat \<Rightarrow> string" where
  "binary64_digits x =
     (let (k0, s0, n0) = shortest 17 1 (decimal_exponent x) x;
          (s, n) = (if s0 = 10 ^ k0 then (s0 div 10, n0 + 1) else (s0, n0));
          ds = decimal s;
          k = int (length ds);
          ex = (if 0 \<le> n - 1 then ''e+'' else ''e-'') @ decimal \<bar>n - 1\<bar>
      in if k \<le> n \<and> n \<le> 21 then ds @ replicate (nat (n - k)) CHR ''0''
         else if 0 < n \<and> n \<le> 21 then take (nat n) ds @ ''.'' @ drop (nat n) ds
         else if - 6 < n \<and> n \<le> 0 then ''0.'' @ replicate (nat (- n)) CHR ''0'' @ ds
         else if k = 1 then ds @ ex
         else take 1 ds @ ''.'' @ drop 1 ds @ ex)"

definition binary64 :: js_engine where
  "binary64 = \<lparr>round_number = round_binary64, shortest_digits = binary64_digits\<rparr>"

section \<open>The store\<close>

text \<open>
  The two tables \<^verbatim>\<open>initializeDatabase\<close> creates (lines 32 to 56), each a list of rows in
  rowid order, and the \<^verbatim>\<open>AUTOINCREMENT\<close> counter of each (the largest id the table ever
  gave out). A row holds the values bound to the statement that wrote it, each under the
  name of its column. A statement whose arguments are bound is taken to execute: a
  transport failure of the remote store is not modelled.
\<close>

record pricing_row =
  pricing_id :: nat
  pricing_basePrice :: jsnum
  pricing_discountPercentage :: jsnum
  pricing_lastUpdated :: jsnum

record payment_row =
  row_id :: nat
  row_fullName :: string
  row_phone :: string
  row_email :: string
  row_paymentId :: string
  row_orderId :: string
  row_amount :: jsval
  row_basePrice :: jsnum
  row_discountPercentage :: jsnum
  row_status :: jsval
  row_date :: jsval

record store =
  pricing :: "pricing_row list"
  pricing_seq :: nat
  payments :: "payment_row list"
  payments_seq :: nat

text \<open>
  Binding an argument of \<^verbatim>\<open>client.execute({ sql, args })\<close>; \<open>None\<close> when the store's client
  throws, which the handlers' \<^verbatim>\<open>catch\<close> blocks answer with 500. A string is bound as it
  is. A number is bound as it is when it is finite; the client refuses \<^verbatim>\<open>Infinity\<close> and
  \<^verbatim>\<open>NaN\<close>. What the client does with any other value (a boolean, an array, an object) is
  the parameter \<open>bind_other\<close>: the value it stores, or \<open>None\<close>.
\<close>

fun is_finite :: "jsnum \<Rightarrow> bool" where
  "is_finite (Fin _) = True"
| "is_finite _ = False"

fun bind_argument :: "(jsval \<Rightarrow> jsval option) \<Rightarrow> jsval \<Rightarrow> jsval option" where
  "bind_argument bind_other (JStr s) = Some (JStr s)"
| "bind_argument bind_other (JNum x) = (if is_finite x then Some (JNum x) else None)"
| "bind_argument bind_other v = bind_other v"

text \<open>The id an \<^verbatim>\<open>INTEGER PRIMARY KEY AUTOINCREMENT\<close> column gives a new row.\<close>

definition next_id :: "nat list \<Rightarrow> nat \<Rightarrow> nat" where
  "next_id ids seq = Suc (fold max ids seq)"

text \<open>
  \<^verbatim>\<open>INSERT INTO pricing (basePrice, discountPercentage, lastUpdated) VALUES (?, ?, ?)\<close>
\<close>

definition insert_pricing :: "jsnum \<Rightarrow> jsnum \<Rightarrow> jsnum \<Rightarrow> store \<Rightarrow> store" where
  "insert_pricing b d t db =
     (let i = next_id (map pricing_id (pricing db)) (pricing_seq db)
      in db\<lparr>pricing := pricing db @
                 [\<lparr>pricing_id = i, pricing_basePrice = b,
                   pricing_discountPercentage = d, pricing_lastUpdated = t\<rparr>],
             pricing_seq := i\<rparr>)"

text \<open>
  \<^verbatim>\<open>UPDATE pricing SET basePrice = ?, discountPercentage = ?, lastUpdated = ? WHERE id = 1\<close>,
  with the number of rows it changed.
\<close>

definition update_pricing :: "jsnum \<Rightarrow> jsnum \<Rightarrow> jsnum \<Rightarrow> store \<Rightarrow> nat \<times> store" where
  "update_pricing b d t db =
     (length (filter (\<lambda>r. pricing_id r = 1) (pricing db)),
      db\<lparr>pricing :=
           map (\<lambda>r. if pricing_id r = 1
                     then r\<lparr>pricing_basePrice := b, pricing_discountPercentage := d,
                            pricing_lastUpdated := t\<rparr>
                     else r)
               (pricing db)\<rparr>)"

text \<open>
  \<^verbatim>\<open>INSERT INTO payments (fullName, phone, email, paymentId, orderId, amount, basePrice,
  discountPercentage, status, date) VALUES (?, ?, ?, ?, ?, ?, ?, ?, ?, ?)\<close>
\<close>

definition insert_payment ::
  "string \<Rightarrow> string \<Rightarrow> string \<Rightarrow> string \<Rightarrow> string \<Rightarrow> jsval \<Rightarrow> jsnum \<Rightarrow> jsnum \<Rightarrow> jsval \<Rightarrow> jsval
     \<Rightarrow> store \<Rightarrow> store" where
  "insert_payment n p e pid oid a b d st dt db =
     (let i = next_id (map row_id (payments db)) (payments_seq db)
      in db\<lparr>payments := payments db @
                 [\<lparr>row_id = i, row_fullName = n, row_phone = p, row_email = e,
                   row_paymentId = pid, row_orderId = oid, row_amount = a, row_basePrice = b,
                   row_discountPercentage = d, row_status = st, row_date = dt\<rparr>],
             payments_seq := i\<rparr>)"

text \<open>
  \<^verbatim>\<open>UPDATE payments SET status = ? WHERE id = ?\<close>, with the number of rows it changed.
  The id bound is the text of the route parameter; \<open>id_equals\<close> is the store's comparison
  of that text with the integer of the \<^verbatim>\<open>id\<close> column.
\<close>

definition update_payment_status ::
  "(string \<Rightarrow> nat \<Rightarrow> bool) \<Rightarrow> jsval \<Rightarrow> string \<Rightarrow> store \<Rightarrow> nat \<times> store" where
  "update_payment_status id_equals st i db =
     (length (filter (\<lambda>r. id_equals i (row_id r)) (payments db)),
      db\<lparr>payments :=
           map (\<lambda>r. if id_equals i (row_id r) then r\<lparr>row_status := st\<rparr> else r)
               (payments db)\<rparr>)"

text \<open>
  Modelled from the spec: the store's \<^verbatim>\<open>SELECT * FROM payments ORDER BY date DESC\<close>, whose
  engine is not in the repository. Rows come out by descending \<^verbatim>\<open>date\<close>, and rows of
  equal \<^verbatim>\<open>date\<close> in insertion order. \<open>rank\<close> places a stored \<^verbatim>\<open>date\<close> value in the
  store's total order of values.
\<close>

fun insert_desc :: "('a \<Rightarrow> 'k::linorder) \<Rightarrow> 'a \<Rightarrow> 'a list \<Rightarrow> 'a list" where
  "insert_desc key r [] = [r]"
| "insert_desc key r (x # xs) =
     (if key x \<le> key r then r # x # xs else x # insert_desc key r xs)"

fun order_by_desc :: "('a \<Rightarrow> 'k::linorder) \<Rightarrow> 'a list \<Rightarrow> 'a list" where
  "order_by_desc key [] = []"
| "order_by_desc key (r # rs) = insert_desc key r (order_by_desc key rs)"

section \<open>Startup\<close>

text \<open>
  \<^verbatim>\<open>initializeDatabase\<close>, lines 58 to 66: after the two \<^verbatim>\<open>CREATE TABLE IF NOT EXISTS\<close>,

  \<^verbatim>\<open>const result = await client.execute('SELECT COUNT(*) as count FROM pricing');
  if (result.rows[0].count === 0) {
    await client.execute({
      sql: 'INSERT INTO pricing (basePrice, discountPercentage, lastUpdated) VALUES (?, ?, ?)',
      args: [199.00, 85.0, Date.now()],
    });\<close>

  \<open>now\<close> is the value of \<^verbatim>\<open>Date.now()\<close>.
\<close>

definition initializeDatabase :: "jsnum \<Rightarrow> store \<Rightarrow> store" where
  "initializeDatabase now db =
     (if length (pricing db) = 0 then insert_pricing (Fin 199) (Fin 85) now db else db)"

text \<open>The store before anything ran: both tables created and empty.\<close>

definition empty_store :: store where
  "empty_store = \<lparr>pricing = [], pricing_seq = 0, payments = [], payments_seq = 0\<rparr>"

section \<open>Responses\<close>

text \<open>
  The JSON envelope a handler sends with \<^verbatim>\<open>res.status(code).json(...)\<close> (\<^verbatim>\<open>res.json\<close> is
  status 200):
  \<^item> \<open>Message ok text\<close> is \<^verbatim>\<open>{ success: ok, message: text }\<close>;
  \<^item> \<open>PricingData text b d f\<close> is \<^verbatim>\<open>{ success: true, message: text, data: { basePrice: b,
    discountPercentage: d, finalPrice: f } }\<close>, the message present when \<open>text\<close> is;
  \<^item> \<open>PaymentRows rows\<close> is \<^verbatim>\<open>{ success: true, data: rows }\<close>.
  \<open>Rejected\<close> is a handler that threw a TypeError outside its \<^verbatim>\<open>try\<close> block: it sends
  nothing itself. What throws inside a \<^verbatim>\<open>try\<close> block is answered by its \<^verbatim>\<open>catch\<close>.
\<close>

datatype body =
    Message bool string
  | PricingData "string option" string string string
  | PaymentRows "payment_row list"

datatype outcome = Response nat body | Rejected

section \<open>Pricing\<close>

text \<open>
  \<^verbatim>\<open>(basePrice * (1 - discountPercentage / 100)).toFixed(2)\<close>, the expression of lines 93,
  139 and 223.
\<close>

definition finalPrice :: "js_engine \<Rightarrow> jsnum \<Rightarrow> jsnum \<Rightarrow> string" where
  "finalPrice eng b d =
     toFixed eng 2 (js_mul eng b (js_sub eng (Fin 1) (js_div eng d (Fin 100))))"

text \<open>
  \<^verbatim>\<open>app.get('/api/pricing', ...)\<close>, lines 85 to 107. The whole body is inside the \<^verbatim>\<open>try\<close>
  block; the \<^verbatim>\<open>catch\<close> of lines 103 to 106 answers 500.
\<close>

definition get_api_pricing :: "js_engine \<Rightarrow> store \<Rightarrow> outcome" where
  "get_api_pricing eng db =
     (case pricing db of
        [] \<Rightarrow> Response 404 (Message False ''No pricing data found.'')
      | row # _ \<Rightarrow>
          let b = pricing_basePrice row;
              d = pricing_discountPercentage row;
              f = finalPrice eng b d
          in (case (parseFloat eng (JNum b), parseFloat eng (JNum d)) of
                (Some b', Some d') \<Rightarrow>
                  Response 200 (PricingData None (toFixed eng 2 b') (toFixed eng 1 d') f)
              | _ \<Rightarrow> Response 500 (Message False ''Failed to fetch pricing.'')))"

text \<open>
  \<^verbatim>\<open>app.post('/api/pricing', ...)\<close>, lines 110 to 153. \<open>basePrice\<close> and
  \<open>discountPercentage\<close> are the two variables destructured from the body. The two calls
  of \<^verbatim>\<open>parseFloat\<close> (lines 119 and 120) stand before the \<^verbatim>\<open>try\<close> block; the \<^verbatim>\<open>UPDATE\<close>
  stands inside it, and the \<^verbatim>\<open>catch\<close> of lines 149 to 152 answers 500 when the client
  refuses an argument. \<open>now\<close> is the value of \<^verbatim>\<open>Date.now()\<close>, a finite number.
\<close>

definition post_api_pricing ::
  "js_engine \<Rightarrow> jsnum \<Rightarrow> store \<Rightarrow> jsval \<Rightarrow> jsval \<Rightarrow> outcome \<times> store" where
  "post_api_pricing eng now db basePrice discountPercentage =
     (if \<not> truthy basePrice \<or> \<not> truthy discountPercentage then
        (Response 400 (Message False ''basePrice and discountPercentage are required.''), db)
      else
        (case parseFloat eng basePrice of
           None \<Rightarrow> (Rejected, db)
         | Some basePriceNum \<Rightarrow>
             (case parseFloat eng discountPercentage of
                None \<Rightarrow> (Rejected, db)
              | Some discountPercentageNum \<Rightarrow>
                  if isNaN basePriceNum \<or> js_le basePriceNum (Fin 0) then
                    (Response 400 (Message False ''basePrice must be a positive number.''), db)
                  else if isNaN discountPercentageNum \<or> js_less discountPercentageNum (Fin 0)
                          \<or> js_greater discountPercentageNum (Fin 100) then
                    (Response 400
                       (Message False ''discountPercentage must be between 0 and 100.''), db)
                  else if \<not> is_finite basePriceNum \<or> \<not> is_finite discountPercentageNum then
                    (Response 500 (Message False ''Failed to update pricing.''), db)
                  else
                    let (rowsAffected, db') =
                          update_pricing basePriceNum discountPercentageNum now db
                    in if rowsAffected = 0 then
                         (Response 404 (Message False ''No pricing record found to update.''),
                          db')
                       else
                         (Response 200
                            (PricingData (Some ''Pricing updated successfully.'')
                               (toFixed eng 2 basePriceNum) (toFixed eng 1 discountPercentageNum)
                               (finalPrice eng basePriceNum discountPercentageNum)),
                          db'))))"

section \<open>The payment gateway\<close>

text \<open>
  What the handler of \<^verbatim>\<open>/api/payment\<close> takes from outside the repository:
  \<^item> \<open>payments_fetch\<close> is \<^verbatim>\<open>razorpay.payments.fetch\<close>, \<open>None\<close> when the call throws or
    resolves to a value without properties (reading \<^verbatim>\<open>payment.order_id\<close> then throws);
  \<^item> \<open>RAZORPAY_KEY_SECRET\<close> is \<^verbatim>\<open>process.env.RAZORPAY_KEY_SECRET\<close>, \<open>None\<close> when unset
    (\<^verbatim>\<open>crypto.createHmac\<close> throws a TypeError on a key that is \<^verbatim>\<open>undefined\<close>);
  \<^item> \<open>hmac_sha256_hex key text\<close> is
    \<^verbatim>\<open>crypto.createHmac('sha256', key).update(text).digest('hex')\<close>.
\<close>

record gateway_payment =
  payment_order_id :: jsval
  payment_status :: jsval

record gateway =
  payments_fetch :: "jsval \<Rightarrow> gateway_payment option"
  RAZORPAY_KEY_SECRET :: "string option"
  hmac_sha256_hex :: "string \<Rightarrow> string \<Rightarrow> string"

section \<open>Payments\<close>

text \<open>
  \<^verbatim>\<open>app.post('/api/payment', ...)\<close>, lines 186 to 213: the checks before the \<^verbatim>\<open>try\<close>
  block. \<open>Some\<close> is the outcome of the first check that fails; \<open>None\<close> when all pass.
  \<^verbatim>\<open>status.toLowerCase()\<close> throws when \<^verbatim>\<open>status\<close> is not a string.
\<close>

definition payment_format_checks ::
  "jsval \<Rightarrow> jsval \<Rightarrow> jsval \<Rightarrow> jsval \<Rightarrow> jsval \<Rightarrow> jsval \<Rightarrow> jsval \<Rightarrow> outcome option" where
  "payment_format_checks fullName phone email orderId amount status date =
     (if \<not> truthy fullName \<or> \<not> truthy phone \<or> \<not> truthy email \<or> \<not> truthy amount
         \<or> \<not> truthy status \<or> \<not> truthy date \<or> \<not> truthy orderId then
        Some (Response 400 (Message False ''Missing required fields.''))
      else if \<not> regex_test phoneRegex (sanitizeString phone) then
        Some (Response 400 (Message False ''Phone number must be 10 digits.''))
      else if \<not> regex_test emailRegex (sanitizeString email) then
        Some (Response 400 (Message False ''Invalid email format.''))
      else
        (case toLowerCase status of
           None \<Rightarrow> Some Rejected
         | Some s \<Rightarrow>
             if s \<notin> set validStatuses then
               Some (Response 400
                 (Message False ''Invalid status. Must be pending, success, or failed.''))
             else None))"

text \<open>
  Lines 232 to 246, the body of \<^verbatim>\<open>if (paymentId && status.toLowerCase() === 'success')\<close>:
  the lookup, the comparison with the gateway's record, and the signature, which is
  computed and bound to \<^verbatim>\<open>generatedSignature\<close>. Whatever throws inside (the lookup,
  \<^verbatim>\<open>createHmac\<close> on an unset secret, the template literal of line 240) is caught at
  line 243.
\<close>

definition verify_payment :: "js_engine \<Rightarrow> gateway \<Rightarrow> jsval \<Rightarrow> jsval \<Rightarrow> outcome option" where
  "verify_payment eng gw paymentId orderId =
     (case payments_fetch gw paymentId of
        None \<Rightarrow> Some (Response 400 (Message False ''Payment verification failed.''))
      | Some payment \<Rightarrow>
          if \<not> strict_equals (payment_order_id payment) orderId
             \<or> \<not> strict_equals (payment_status payment) (JStr ''captured'') then
            Some (Response 400 (Message False ''Invalid payment or order ID.''))
          else
            (case RAZORPAY_KEY_SECRET gw of
               None \<Rightarrow> Some (Response 400 (Message False ''Payment verification failed.''))
             | Some secret \<Rightarrow>
                 (case (ToString eng orderId, ToString eng paymentId) of
                    (Some order_text, Some payment_text) \<Rightarrow>
                      let generatedSignature =
                            hmac_sha256_hex gw secret (order_text @ ''|'' @ payment_text)
                      in None
                  | _ \<Rightarrow> Some (Response 400 (Message False ''Payment verification failed.'')))))"

text \<open>
  Lines 249 to 255: the \<^verbatim>\<open>INSERT\<close> and the answer. The five sanitized strings are bound as
  they are; the client refuses the statement when it refuses \<^verbatim>\<open>amount\<close>, \<^verbatim>\<open>status\<close>,
  \<^verbatim>\<open>date\<close> or one of the two numbers of the pricing row, and the \<^verbatim>\<open>catch\<close> of lines 256 to
  258 answers 500.
\<close>

definition save_payment ::
  "(jsval \<Rightarrow> jsval option) \<Rightarrow> store \<Rightarrow> string \<Rightarrow> string \<Rightarrow> string \<Rightarrow> string \<Rightarrow> string \<Rightarrow>
   jsval \<Rightarrow> jsnum \<Rightarrow> jsnum \<Rightarrow> jsval \<Rightarrow> jsval \<Rightarrow> outcome \<times> store" where
  "save_payment bind_other db sanitizedFullName sanitizedPhone sanitizedEmail sanitizedPaymentId
     sanitizedOrderId amount basePrice discountPercentage status date =
     (case (bind_argument bind_other amount, bind_argument bind_other status,
            bind_argument bind_other date) of
        (Some bound_amount, Some bound_status, Some bound_date) \<Rightarrow>
          if is_finite basePrice \<and> is_finite discountPercentage then
            (Response 200 (Message True ''Payment saved.''),
             insert_payment sanitizedFullName sanitizedPhone sanitizedEmail sanitizedPaymentId
               sanitizedOrderId bound_amount basePrice discountPercentage bound_status
               bound_date db)
          else (Response 500 (Message False ''Failed to save payment.''), db)
      | _ \<Rightarrow> (Response 500 (Message False ''Failed to save payment.''), db))"

text \<open>
  The whole handler, lines 182 to 260. The eight arguments after the store are the
  variables destructured from the body. From line 215 on everything is inside the \<^verbatim>\<open>try\<close>
  block: when \<^verbatim>\<open>parseFloat(amount)\<close> (line 226) or the template literal of line 227
  throws, the \<^verbatim>\<open>catch\<close> of lines 256 to 258 answers 500.
\<close>

definition post_api_payment ::
  "js_engine \<Rightarrow> gateway \<Rightarrow> (jsval \<Rightarrow> jsval option) \<Rightarrow> store \<Rightarrow>
   jsval \<Rightarrow> jsval \<Rightarrow> jsval \<Rightarrow> jsval \<Rightarrow> jsval \<Rightarrow> jsval \<Rightarrow> jsval \<Rightarrow> jsval \<Rightarrow> outcome \<times> store" where
  "post_api_payment eng gw bind_other db fullName phone email paymentId orderId amount status
     date =
     (case payment_format_checks fullName phone email orderId amount status date of
        Some out \<Rightarrow> (out, db)
      | None \<Rightarrow>
          let sanitizedFullName = sanitizeString fullName;
              sanitizedPhone = sanitizeString phone;
              sanitizedEmail = sanitizeString email;
              sanitizedPaymentId = (if truthy paymentId then sanitizeString paymentId else []);
              sanitizedOrderId = sanitizeString orderId
          in (case pricing db of
                [] \<Rightarrow> (Response 400 (Message False ''No pricing data available.''), db)
              | row # _ \<Rightarrow>
                  let basePrice = pricing_basePrice row;
                      discountPercentage = pricing_discountPercentage row;
                      expectedFinalPrice = finalPrice eng basePrice discountPercentage
                  in (case parseFloat eng amount of
                        None \<Rightarrow> (Response 500 (Message False ''Failed to save payment.''), db)
                      | Some amountNum \<Rightarrow>
                          if toFixed eng 2 amountNum \<noteq> expectedFinalPrice then
                            (case ToString eng amount of
                               None \<Rightarrow>
                                 (Response 500 (Message False ''Failed to save payment.''), db)
                             | Some received \<Rightarrow>
                                 (Response 400
                                    (Message False
                                       (''Invalid amount. Expected '' @ expectedFinalPrice
                                          @ '', received '' @ received @ ''.'')),
                                  db))
                          else
                            (case (if truthy paymentId
                                      \<and> toLowerCase status = Some ''success''
                                   then verify_payment eng gw paymentId orderId else None) of
                               Some out \<Rightarrow> (out, db)
                             | None \<Rightarrow>
                                 save_payment bind_other db sanitizedFullName sanitizedPhone
                                   sanitizedEmail sanitizedPaymentId sanitizedOrderId amount
                                   basePrice discountPercentage status date))))"

text \<open>
  \<^verbatim>\<open>app.patch('/api/payment/:id', ...)\<close>, lines 263 to 293. \<open>params_id\<close> is
  \<^verbatim>\<open>req.params.id\<close>, a string.
\<close>

definition patch_api_payment ::
  "(string \<Rightarrow> nat \<Rightarrow> bool) \<Rightarrow> store \<Rightarrow> string \<Rightarrow> jsval \<Rightarrow> outcome \<times> store" where
  "patch_api_payment id_equals db params_id status =
     (if \<not> truthy status then (Response 400 (Message False ''Status is required.''), db)
      else
        (case toLowerCase status of
           None \<Rightarrow> (Rejected, db)
         | Some s \<Rightarrow>
             if s \<notin> set validStatuses then
               (Response 400
                  (Message False ''Invalid status. Must be pending, success, or failed.''),
                db)
             else
               let (rowsAffected, db') = update_payment_status id_equals (JStr s) params_id db
               in if rowsAffected = 0 then
                    (Response 404 (Message False ''Payment record not found.''), db')
                  else (Response 200 (Message True ''Payment status updated.''), db')))"

text \<open>\<^verbatim>\<open>app.get('/api/payments', ...)\<close>, lines 296 to 304.\<close>

definition get_api_payments :: "(jsval \<Rightarrow> 'k::linorder) \<Rightarrow> store \<Rightarrow> outcome" where
  "get_api_payments rank db =
     Response 200 (PaymentRows (order_by_desc (\<lambda>r. rank (row_date r)) (payments db)))"

section \<open>A store and a gateway for the examples\<close>

text \<open>The store after the first start, at \<^verbatim>\<open>Date.now() = 1700000000000\<close>.\<close>

definition seeded_store :: store where
  "seeded_store = initializeDatabase (Fin 1700000000000) empty_store"

text \<open>
  A gateway that knows one payment, \<^verbatim>\<open>pay_1\<close>, captured for the order \<^verbatim>\<open>order_1\<close>, with
  a secret and a stand-in for the HMAC.
\<close>

definition example_gateway :: gateway where
  "example_gateway =
     \<lparr>payments_fetch =
        (\<lambda>p. if p = JStr ''pay_1''
             then Some \<lparr>payment_order_id = JStr ''order_1'', payment_status = JStr ''captured''\<rparr>
             else None),
      RAZORPAY_KEY_SECRET = Some ''secret'',
      hmac_sha256_hex = (\<lambda>key text. key @ text)\<rparr>"

text \<open>A client that binds strings and finite numbers only.\<close>

definition example_client :: "jsval \<Rightarrow> jsval option" where
  "example_client v = None"

text \<open>A store's order of \<^verbatim>\<open>date\<close> values that are numbers: by value.\<close>

definition example_rank :: "jsval \<Rightarrow> rat" where
  "example_rank v = (case v of JNum (Fin x) \<Rightarrow> x | _ \<Rightarrow> 0)"

text \<open>A store's comparison of an id with a route parameter: equal to its decimal digits.\<close>

definition example_id_equals :: "string \<Rightarrow> nat \<Rightarrow> bool" where
  "example_id_equals i n = (i = decimal (int n))"

section \<open>Properties of the sanitizer and of the phone check\<close>

lemma regex_test_Zero: "regex_test Zero s = False"
  by (induction s) auto

lemma regex_test_One: "regex_test One s = (s = [])"
  by (cases s) (auto simp: regex_test_Zero)

lemma regex_test_Alt: "regex_test (Alt r1 r2) s = (regex_test r1 s \<or> regex_test r2 s)"
  by (induction s arbitrary: r1 r2) auto

lemma regex_test_Seq_Zero: "regex_test (Seq Zero r) s = False"
  by (induction s) auto

lemma regex_test_Seq_One: "regex_test (Seq One r) s = regex_test r s"
  by (cases s) (auto simp: regex_test_Alt regex_test_Seq_Zero)

lemma regex_test_Seq_Class:
  "regex_test (Seq (Class P) r) s = (case s of [] \<Rightarrow> False | c # cs \<Rightarrow> P c \<and> regex_test r cs)"
  by (cases s) (auto simp: regex_test_Seq_One regex_test_Seq_Zero)

lemma regex_test_Times_Class:
  "regex_test (Times n (Class P)) s = (length s = n \<and> list_all P s)"
proof (induction n arbitrary: s)
  case 0
  show ?case by (auto simp: regex_test_One)
next
  case (Suc n)
  have "regex_test (Times (Suc n) (Class P)) s
        = (case s of [] \<Rightarrow> False | c # cs \<Rightarrow> P c \<and> regex_test (Times n (Class P)) cs)"
    by (simp only: Times.simps regex_test_Seq_Class)
  then show ?case by (cases s) (auto simp: Suc.IH)
qed

lemma phoneRegex_test: "regex_test phoneRegex s = (length s = 10 \<and> list_all is_digit s)"
  unfolding phoneRegex_def by (rule regex_test_Times_Class)

lemma sanitize_class_not_space: "sanitize_class c \<Longrightarrow> \<not> is_space c"
  by (auto simp: sanitize_class_def is_space_def is_lower_def is_upper_def is_digit_def code_unit_def)

lemma filter_dropWhile_disjoint:
  "(\<And>x. P x \<Longrightarrow> \<not> Q x) \<Longrightarrow> filter P (dropWhile Q xs) = filter P xs"
  by (induction xs) auto

lemma filter_trim: "filter sanitize_class (trim s) = filter sanitize_class s"
proof -
  have "filter sanitize_class (trim s)
        = rev (filter sanitize_class (dropWhile is_space (rev (dropWhile is_space s))))"
    by (simp add: trim_def rev_filter)
  also have "\<dots> = rev (filter sanitize_class (rev (dropWhile is_space s)))"
    by (simp add: filter_dropWhile_disjoint sanitize_class_not_space)
  also have "\<dots> = filter sanitize_class (dropWhile is_space s)"
    by (simp add: rev_filter)
  also have "\<dots> = filter sanitize_class s"
    by (simp add: filter_dropWhile_disjoint sanitize_class_not_space)
  finally show ?thesis .
qed

lemma sanitizeString_JStr: "sanitizeString (JStr s) = filter sanitize_class s"
  by (simp add: replace_all_not_def filter_trim)

text \<open>
  C10. \<^verbatim>\<open>sanitizeString\<close> returns the empty string for every input that is not a string
  (\<^verbatim>\<open>undefined\<close>, \<^verbatim>\<open>null\<close>, a boolean, a number, an array, an object). For a string it
  returns the trimmed input with every character outside \<^verbatim>\<open>[a-zA-Z0-9@._-]\<close> removed,
  which is the input itself with those characters removed, since white space is outside
  the class. It is a function of its argument alone, and it is idempotent.
\<close>

theorem sanitizeString_spec:
  "sanitizeString JUndefined = [] \<and> sanitizeString JNull = []
   \<and> sanitizeString (JBool b) = [] \<and> sanitizeString (JNum n) = []
   \<and> sanitizeString (JArr xs) = [] \<and> sanitizeString (JObj kvs) = []
   \<and> sanitizeString (JStr s) = filter sanitize_class (trim s)
   \<and> sanitizeString (JStr s) = filter sanitize_class s
   \<and> sanitizeString (JStr (sanitizeString v)) = sanitizeString v"
proof -
  have idem: "sanitizeString (JStr (sanitizeString v)) = sanitizeString v"
    by (cases v) (simp_all add: sanitizeString_JStr del: sanitizeString.simps(1))
  show ?thesis
    using idem by (simp add: replace_all_not_def filter_trim)
qed

theorem sanitizeString_spec_witness:
  "sanitizeString (JStr '' a b@c.d-e_f!#  '') = ''ab@c.d-e_f''
   \<and> sanitizeString (JStr (sanitizeString (JStr '' a b@c.d-e_f!#  ''))) = ''ab@c.d-e_f''"
proof -
  have e: "sanitizeString (JStr '' a b@c.d-e_f!#  '') = ''ab@c.d-e_f''"
    by code_simp
  have "sanitizeString (JStr (sanitizeString (JStr '' a b@c.d-e_f!#  '')))
        = sanitizeString (JStr '' a b@c.d-e_f!#  '')"
    using sanitizeString_spec [of True "Fin 5" "[]" "[]" "[]" "JStr '' a b@c.d-e_f!#  ''"]
    by blast
  with e show ?thesis by (simp only: simp_thms)
qed

text \<open>
  C7, as amended. The phone check of lines 198 and 199 accepts an input exactly when its
  sanitized form is ten decimal digits. \<^verbatim>\<open>"12345"\<close> is rejected; \<^verbatim>\<open>"1234567890"\<close> and
  \<^verbatim>\<open>"(123) 456 7890"\<close>, which sanitizes to it, pass. The hyphen is in the sanitizer's
  class, so \<^verbatim>\<open>"123-456-7890"\<close> is left as it is and is rejected.
\<close>

theorem phone_check:
  "(regex_test phoneRegex (sanitizeString phone)
      = (length (sanitizeString phone) = 10 \<and> list_all is_digit (sanitizeString phone)))
   \<and> \<not> regex_test phoneRegex (sanitizeString (JStr ''12345''))
   \<and> regex_test phoneRegex (sanitizeString (JStr ''1234567890''))
   \<and> sanitizeString (JStr ''(123) 456 7890'') = ''1234567890''
   \<and> regex_test phoneRegex (sanitizeString (JStr ''(123) 456 7890''))
   \<and> sanitizeString (JStr ''123-456-7890'') = ''123-456-7890''
   \<and> \<not> regex_test phoneRegex (sanitizeString (JStr ''123-456-7890''))"
proof -
  have "\<not> regex_test phoneRegex (sanitizeString (JStr ''12345''))" by code_simp
  moreover have "regex_test phoneRegex (sanitizeString (JStr ''1234567890''))" by code_simp
  moreover have "sanitizeString (JStr ''(123) 456 7890'') = ''1234567890''" by code_simp
  moreover have "regex_test phoneRegex (sanitizeString (JStr ''(123) 456 7890''))" by code_simp
  moreover have "sanitizeString (JStr ''123-456-7890'') = ''123-456-7890''" by code_simp
  moreover have "\<not> regex_test phoneRegex (sanitizeString (JStr ''123-456-7890''))" by code_simp
  ultimately show ?thesis by (simp only: phoneRegex_test simp_thms)
qed

theorem phone_check_witness:
  "regex_test phoneRegex (sanitizeString (JStr '' 98765 43210 ''))
   \<and> length (sanitizeString (JStr '' 98765 43210 '')) = 10"
proof -
  have "length (sanitizeString (JStr '' 98765 43210 '')) = 10
        \<and> list_all is_digit (sanitizeString (JStr '' 98765 43210 ''))"
    by code_simp
  with phone_check [of "JStr '' 98765 43210 ''"] show ?thesis by blast
qed

text \<open>
  C7 as stated fails: \<^verbatim>\<open>"123-456-7890"\<close> does not sanitize to \<^verbatim>\<open>"1234567890"\<close>, and a
  submission with that phone is answered 400.
\<close>

theorem phone_check_counterexample:
  "sanitizeString (JStr ''123-456-7890'') = ''123-456-7890''
   \<and> \<not> regex_test phoneRegex (sanitizeString (JStr ''123-456-7890''))
   \<and> payment_format_checks (JStr ''Asha'') (JStr ''123-456-7890'') (JStr ''asha@example.com'')
        (JStr ''order_1'') (JStr ''29.85'') (JStr ''pending'') (JNum (Fin 1700000000000))
      = Some (Response 400 (Message False ''Phone number must be 10 digits.''))"
  by code_simp

section \<open>Properties of startup seeding\<close>

lemma initializeDatabase_seeded: "pricing db \<noteq> [] \<Longrightarrow> initializeDatabase t db = db"
  by (simp add: initializeDatabase_def)

lemma initializeDatabase_runs_seeded:
  "pricing db \<noteq> [] \<Longrightarrow> foldl (\<lambda>d t. initializeDatabase t d) db ts = db"
  by (induction ts) (simp_all add: initializeDatabase_seeded)

lemma initializeDatabase_empty:
  "pricing db = [] \<Longrightarrow>
   initializeDatabase now db
   = db\<lparr>pricing := [\<lparr>pricing_id = Suc (pricing_seq db), pricing_basePrice = Fin 199,
                       pricing_discountPercentage = Fin 85, pricing_lastUpdated = now\<rparr>],
         pricing_seq := Suc (pricing_seq db)\<rparr>"
  by (simp add: initializeDatabase_def insert_pricing_def next_id_def)

text \<open>
  C5. On a store whose pricing table has a row, any number of runs of
  \<^verbatim>\<open>initializeDatabase\<close> (one for each \<^verbatim>\<open>Date.now()\<close> of \<open>ts\<close>) leave the store as it is.
  On a store whose pricing table is empty, one run leaves exactly one row, with
  \<^verbatim>\<open>basePrice\<close> 199 and \<^verbatim>\<open>discountPercentage\<close> 85, and touches no payment; any number of
  further runs insert nothing.
\<close>

theorem initializeDatabase_idempotent:
  "(pricing db \<noteq> [] \<longrightarrow> foldl (\<lambda>d t. initializeDatabase t d) db ts = db)
   \<and> (pricing db = [] \<longrightarrow>
        pricing (initializeDatabase now db)
          = [\<lparr>pricing_id = Suc (pricing_seq db), pricing_basePrice = Fin 199,
              pricing_discountPercentage = Fin 85, pricing_lastUpdated = now\<rparr>]
        \<and> payments (initializeDatabase now db) = payments db
        \<and> foldl (\<lambda>d t. initializeDatabase t d) (initializeDatabase now db) ts
            = initializeDatabase now db)"
proof (intro conjI impI)
  assume "pricing db \<noteq> []"
  then show "foldl (\<lambda>d t. initializeDatabase t d) db ts = db"
    by (rule initializeDatabase_runs_seeded)
next
  assume e: "pricing db = []"
  show "pricing (initializeDatabase now db)
          = [\<lparr>pricing_id = Suc (pricing_seq db), pricing_basePrice = Fin 199,
              pricing_discountPercentage = Fin 85, pricing_lastUpdated = now\<rparr>]"
    by (simp add: initializeDatabase_empty [OF e])
  show "payments (initializeDatabase now db) = payments db"
    by (simp add: initializeDatabase_empty [OF e])
  have "pricing (initializeDatabase now db) \<noteq> []"
    by (simp add: initializeDatabase_empty [OF e])
  then show "foldl (\<lambda>d t. initializeDatabase t d) (initializeDatabase now db) ts
            = initializeDatabase now db"
    by (rule initializeDatabase_runs_seeded)
qed

theorem initializeDatabase_idempotent_witness:
  "pricing empty_store = []
   \<and> pricing (initializeDatabase (Fin 1700000000000) empty_store)
       = [\<lparr>pricing_id = 1, pricing_basePrice = Fin 199,
           pricing_discountPercentage = Fin 85, pricing_lastUpdated = Fin 1700000000000\<rparr>]
   \<and> foldl (\<lambda>d t. initializeDatabase t d) (initializeDatabase (Fin 1700000000000) empty_store)
        [Fin 1700000000001, Fin 1700000000002]
       = initializeDatabase (Fin 1700000000000) empty_store
   \<and> pricing (initializeDatabase (Fin 1700000000000) empty_store) \<noteq> []
   \<and> foldl (\<lambda>d t. initializeDatabase t d) (initializeDatabase (Fin 1700000000000) empty_store)
        [Fin 1700000000003]
       = initializeDatabase (Fin 1700000000000) empty_store"
proof -
  have e: "pricing empty_store = []" by (simp add: empty_store_def)
  have s: "pricing_seq empty_store = 0" by (simp add: empty_store_def)
  have n: "pricing (initializeDatabase (Fin 1700000000000) empty_store) \<noteq> []"
    using initializeDatabase_idempotent [of empty_store "[]" "Fin 1700000000000"] e by simp
  show ?thesis
    using initializeDatabase_idempotent
            [of empty_store "[Fin 1700000000001, Fin 1700000000002]" "Fin 1700000000000"]
          initializeDatabase_idempotent
            [of "initializeDatabase (Fin 1700000000000) empty_store" "[Fin 1700000000003]"
                "Fin 0"]
          e s n
    by simp
qed

section \<open>Properties of the status update\<close>

lemma filter_none_map_id:
  "filter P xs = [] \<Longrightarrow> map (\<lambda>r. if P r then f r else r) xs = xs"
  by (induction xs) (auto split: if_splits)

text \<open>
  C6. For a \<^verbatim>\<open>status\<close> the validation accepts (a string whose lower case is one of
  \<open>validStatuses\<close>) and any id, the handler of \<^verbatim>\<open>PATCH /api/payment/:id\<close> answers 404
  exactly when no row of \<^verbatim>\<open>payments\<close> has that id, and then the store is unchanged; it
  answers 200 exactly when some row has it. In the store it returns, the rows with that
  id have their \<^verbatim>\<open>status\<close> set to the lower-cased status, and nothing else differs.
\<close>

theorem patch_api_payment_updates:
  assumes "toLowerCase status = Some s" and "s \<in> set validStatuses"
  shows "(fst (patch_api_payment id_equals db params_id status)
            = Response 404 (Message False ''Payment record not found.'')
          \<longleftrightarrow> (\<forall>r \<in> set (payments db). \<not> id_equals params_id (row_id r)))
       \<and> (fst (patch_api_payment id_equals db params_id status)
            = Response 200 (Message True ''Payment status updated.'')
          \<longleftrightarrow> (\<exists>r \<in> set (payments db). id_equals params_id (row_id r)))
       \<and> ((\<forall>r \<in> set (payments db). \<not> id_equals params_id (row_id r))
            \<longrightarrow> snd (patch_api_payment id_equals db params_id status) = db)
       \<and> snd (patch_api_payment id_equals db params_id status)
           = db\<lparr>payments :=
                  map (\<lambda>r. if id_equals params_id (row_id r) then r\<lparr>row_status := JStr s\<rparr> else r)
                      (payments db)\<rparr>"
proof -
  obtain t where st: "status = JStr t" using assms(1) by (cases status) auto
  have "s \<noteq> []" using assms(2) by (auto simp: validStatuses_def)
  then have "t \<noteq> []" using assms(1) st by auto
  then have tr: "truthy status" by (simp add: st)
  let ?P = "\<lambda>r. id_equals params_id (row_id r)"
  have none: "(filter ?P (payments db) = []) = (\<forall>r \<in> set (payments db). \<not> ?P r)"
    by (simp add: filter_empty_conv)
  show ?thesis
  proof (cases "filter ?P (payments db) = []")
    case True
    then have "map (\<lambda>r. if ?P r then r\<lparr>row_status := JStr s\<rparr> else r) (payments db) = payments db"
      by (rule filter_none_map_id)
    with True none tr assms show ?thesis
      by (simp add: patch_api_payment_def update_payment_status_def)
  next
    case False
    with none have "\<exists>r \<in> set (payments db). ?P r" by blast
    with False tr assms show ?thesis
      by (auto simp: patch_api_payment_def update_payment_status_def)
  qed
qed

theorem patch_api_payment_updates_witness:
  "toLowerCase (JStr ''Success'') = Some ''success'' \<and> ''success'' \<in> set validStatuses
   \<and> fst (patch_api_payment example_id_equals
             (insert_payment ''Asha'' ''9876543210'' ''asha@example.com'' [] ''order_1''
                (JStr ''29.85'') (Fin 199) (Fin 85) (JStr ''pending'') (JNum (Fin 1700000000000))
                empty_store)
             ''1'' (JStr ''Success''))
       = Response 200 (Message True ''Payment status updated.'')
   \<and> map row_status (payments (snd (patch_api_payment example_id_equals
             (insert_payment ''Asha'' ''9876543210'' ''asha@example.com'' [] ''order_1''
                (JStr ''29.85'') (Fin 199) (Fin 85) (JStr ''pending'') (JNum (Fin 1700000000000))
                empty_store)
             ''1'' (JStr ''Success''))))
       = [JStr ''success'']
   \<and> patch_api_payment example_id_equals
             (insert_payment ''Asha'' ''9876543210'' ''asha@example.com'' [] ''order_1''
                (JStr ''29.85'') (Fin 199) (Fin 85) (JStr ''pending'') (JNum (Fin 1700000000000))
                empty_store)
             ''2'' (JStr ''Success'')
       = (Response 404 (Message False ''Payment record not found.''),
          insert_payment ''Asha'' ''9876543210'' ''asha@example.com'' [] ''order_1''
                (JStr ''29.85'') (Fin 199) (Fin 85) (JStr ''pending'') (JNum (Fin 1700000000000))
                empty_store)"
proof -
  let ?db = "insert_payment ''Asha'' ''9876543210'' ''asha@example.com'' [] ''order_1''
                (JStr ''29.85'') (Fin 199) (Fin 85) (JStr ''pending'') (JNum (Fin 1700000000000))
                empty_store"
  let ?eq = "example_id_equals"
  have l: "toLowerCase (JStr ''Success'') = Some ''success''" by code_simp
  have v: "''success'' \<in> set validStatuses" by (simp add: validStatuses_def)
  have ids: "map row_id (payments ?db) = [1]"
    by (simp add: insert_payment_def empty_store_def next_id_def)
  have sts: "map row_status (payments ?db) = [JStr ''pending'']"
    by (simp add: insert_payment_def empty_store_def next_id_def)
  have d1: "decimal (int 1) = ''1''" by code_simp
  have hit: "\<exists>r \<in> set (payments ?db). ?eq ''1'' (row_id r)"
    using ids d1
    by (auto simp: insert_payment_def empty_store_def next_id_def example_id_equals_def)
  have miss: "\<forall>r \<in> set (payments ?db). \<not> ?eq ''2'' (row_id r)"
    using ids d1
    by (auto simp: insert_payment_def empty_store_def next_id_def example_id_equals_def)
  note t1 = patch_api_payment_updates [OF l v, of ?eq ?db "''1''"]
  note t2 = patch_api_payment_updates [OF l v, of ?eq ?db "''2''"]
  have a: "fst (patch_api_payment ?eq ?db ''1'' (JStr ''Success''))
             = Response 200 (Message True ''Payment status updated.'')"
    using t1 hit by blast
  have b: "map row_status (payments (snd (patch_api_payment ?eq ?db ''1'' (JStr ''Success''))))
             = [JStr ''success'']"
    using t1 d1
    by (simp add: insert_payment_def empty_store_def next_id_def example_id_equals_def)
  have c1: "fst (patch_api_payment ?eq ?db ''2'' (JStr ''Success''))
             = Response 404 (Message False ''Payment record not found.'')"
    using t2 miss by blast
  have c2: "snd (patch_api_payment ?eq ?db ''2'' (JStr ''Success'')) = ?db"
    using t2 miss by blast
  have c: "patch_api_payment ?eq ?db ''2'' (JStr ''Success'')
             = (Response 404 (Message False ''Payment record not found.''), ?db)"
    using c1 c2 by (simp add: prod_eq_iff)
  from l v a b c show ?thesis by (simp only: simp_thms)
qed

section \<open>Properties of the payment list\<close>

lemma payments_insert_payment:
  "payments (insert_payment n p e pid oid a b d st dt db)
   = payments db @
       [\<lparr>row_id = next_id (map row_id (payments db)) (payments_seq db), row_fullName = n,
         row_phone = p, row_email = e, row_paymentId = pid, row_orderId = oid, row_amount = a,
         row_basePrice = b, row_discountPercentage = d, row_status = st, row_date = dt\<rparr>]"
  by (simp add: insert_payment_def Let_def)

lemma mset_insert_desc: "mset (insert_desc key r xs) = add_mset r (mset xs)"
  by (induction xs) auto

lemma mset_order_by_desc: "mset (order_by_desc key xs) = mset xs"
  by (induction xs) (auto simp: mset_insert_desc)

lemma set_insert_desc: "set (insert_desc key r xs) = insert r (set xs)"
  by (induction xs) auto

lemma sorted_insert_desc:
  "sorted_wrt (\<lambda>a b. key b \<le> key a) xs \<Longrightarrow> sorted_wrt (\<lambda>a b. key b \<le> key a) (insert_desc key r xs)"
proof (induction xs)
  case Nil
  show ?case by simp
next
  case (Cons x xs)
  show ?case
  proof (cases "key x \<le> key r")
    case True
    with Cons.prems show ?thesis by (auto intro: order_trans)
  next
    case False
    with Cons show ?thesis by (auto simp: set_insert_desc)
  qed
qed

lemma sorted_order_by_desc: "sorted_wrt (\<lambda>a b. key b \<le> key a) (order_by_desc key xs)"
  by (induction xs) (auto simp: sorted_insert_desc)

lemma filter_insert_desc:
  "filter (\<lambda>x. key x = k) (insert_desc key r xs)
   = (if key r = k then r # filter (\<lambda>x. key x = k) xs else filter (\<lambda>x. key x = k) xs)"
  by (induction xs) auto

lemma filter_order_by_desc:
  "filter (\<lambda>x. key x = k) (order_by_desc key xs) = filter (\<lambda>x. key x = k) xs"
  by (induction xs) (auto simp: filter_insert_desc)

text \<open>
  C8. The handler of \<^verbatim>\<open>GET /api/payments\<close> answers 200 with rows that are exactly the
  rows of \<^verbatim>\<open>payments\<close>, each as often as it is stored (nothing filtered, nothing added),
  in descending order of \<^verbatim>\<open>date\<close>; the rows of any one \<^verbatim>\<open>date\<close> come in the order in
  which they were inserted. The order of \<^verbatim>\<open>date\<close> values and the order among equal dates
  are the store's, as modelled by \<open>order_by_desc\<close>.
\<close>

theorem get_api_payments_ordered:
  "\<exists>rows. get_api_payments rank db = Response 200 (PaymentRows rows)
     \<and> mset rows = mset (payments db)
     \<and> sorted_wrt (\<lambda>a b. rank (row_date b) \<le> rank (row_date a)) rows
     \<and> (\<forall>k. filter (\<lambda>r. rank (row_date r) = k) rows
             = filter (\<lambda>r. rank (row_date r) = k) (payments db))"
proof (intro exI conjI allI)
  show "get_api_payments rank db
        = Response 200 (PaymentRows (order_by_desc (\<lambda>r. rank (row_date r)) (payments db)))"
    by (simp add: get_api_payments_def)
  show "mset (order_by_desc (\<lambda>r. rank (row_date r)) (payments db)) = mset (payments db)"
    by (rule mset_order_by_desc)
  show "sorted_wrt (\<lambda>a b. rank (row_date b) \<le> rank (row_date a))
          (order_by_desc (\<lambda>r. rank (row_date r)) (payments db))"
    by (rule sorted_order_by_desc)
  show "filter (\<lambda>r. rank (row_date r) = k) (order_by_desc (\<lambda>r. rank (row_date r)) (payments db))
        = filter (\<lambda>r. rank (row_date r) = k) (payments db)" for k
    by (rule filter_order_by_desc)
qed

theorem get_api_payments_ordered_witness:
  "\<exists>rows. get_api_payments example_rank
       (insert_payment ''C'' ''3'' ''c'' [] ''o3'' (JStr ''1'') (Fin 1) (Fin 0) (JStr ''pending'')
          (JNum (Fin 5))
       (insert_payment ''B'' ''2'' ''b'' [] ''o2'' (JStr ''1'') (Fin 1) (Fin 0) (JStr ''pending'')
          (JNum (Fin 9))
       (insert_payment ''A'' ''1'' ''a'' [] ''o1'' (JStr ''1'') (Fin 1) (Fin 0) (JStr ''pending'')
          (JNum (Fin 5)) empty_store)))
     = Response 200 (PaymentRows rows)
     \<and> map row_fullName rows = [''B'', ''A'', ''C'']
     \<and> sorted_wrt (\<lambda>a b. example_rank (row_date b) \<le> example_rank (row_date a)) rows"
proof -
  let ?db = "insert_payment ''C'' ''3'' ''c'' [] ''o3'' (JStr ''1'') (Fin 1) (Fin 0) (JStr ''pending'')
          (JNum (Fin 5))
       (insert_payment ''B'' ''2'' ''b'' [] ''o2'' (JStr ''1'') (Fin 1) (Fin 0) (JStr ''pending'')
          (JNum (Fin 9))
       (insert_payment ''A'' ''1'' ''a'' [] ''o1'' (JStr ''1'') (Fin 1) (Fin 0) (JStr ''pending'')
          (JNum (Fin 5)) empty_store))"
  obtain rows where r: "get_api_payments example_rank ?db = Response 200 (PaymentRows rows)"
    and s: "sorted_wrt (\<lambda>a b. example_rank (row_date b) \<le> example_rank (row_date a)) rows"
    using get_api_payments_ordered [of example_rank ?db] by blast
  have "rows = order_by_desc (\<lambda>r. example_rank (row_date r)) (payments ?db)"
    using r by (simp add: get_api_payments_def)
  then have m: "map row_fullName rows = [''B'', ''A'', ''C'']"
    by (simp add: payments_insert_payment empty_store_def example_rank_def)
  show ?thesis
    by (intro exI [of _ rows] conjI r m s)
qed

section \<open>Properties of the payment submission\<close>

lemma verify_payment_secret:
  "verify_payment eng (gw\<lparr>RAZORPAY_KEY_SECRET := Some secret1, hmac_sha256_hex := h1\<rparr>) paymentId orderId
   = verify_payment eng (gw\<lparr>RAZORPAY_KEY_SECRET := Some secret2, hmac_sha256_hex := h2\<rparr>) paymentId orderId"
  by (simp add: verify_payment_def split: option.splits)

text \<open>
  C9. The signature bound to \<^verbatim>\<open>generatedSignature\<close> has no part in the outcome of
  \<^verbatim>\<open>POST /api/payment\<close>: for any two secrets and any two HMAC functions, with the request,
  the store, the engine, the store's client and the gateway's lookup the same, the handler
  gives the same response and the same store.
\<close>

theorem signature_never_checked:
  "post_api_payment eng (gw\<lparr>RAZORPAY_KEY_SECRET := Some secret1, hmac_sha256_hex := h1\<rparr>)
     bind_other db fullName phone email paymentId orderId amount status date
   = post_api_payment eng (gw\<lparr>RAZORPAY_KEY_SECRET := Some secret2, hmac_sha256_hex := h2\<rparr>)
     bind_other db fullName phone email paymentId orderId amount status date"
proof -
  have "verify_payment eng (gw\<lparr>RAZORPAY_KEY_SECRET := Some secret1, hmac_sha256_hex := h1\<rparr>)
          paymentId orderId
        = verify_payment eng (gw\<lparr>RAZORPAY_KEY_SECRET := Some secret2, hmac_sha256_hex := h2\<rparr>)
          paymentId orderId"
    by (rule verify_payment_secret)
  then show ?thesis
    unfolding post_api_payment_def by (simp only:)
qed

lemma verify_payment_example:
  "verify_payment eng (example_gateway\<lparr>RAZORPAY_KEY_SECRET := Some secret, hmac_sha256_hex := h\<rparr>)
     (JStr ''pay_1'') (JStr ''order_1'') = None"
  by (simp add: verify_payment_def example_gateway_def)

text \<open>The handler writes to the store only when it answers \<^verbatim>\<open>Payment saved.\<close>\<close>

lemma save_payment_writes_only_on_success:
  "snd (save_payment bind_other db n p e pid oid amount b d status date) = db
   \<or> fst (save_payment bind_other db n p e pid oid amount b d status date)
       = Response 200 (Message True ''Payment saved.'')"
  by (simp add: save_payment_def split: option.splits)

theorem post_api_payment_writes_only_on_success:
  "snd (post_api_payment eng gw bind_other db fullName phone email paymentId orderId amount
          status date) = db
   \<or> fst (post_api_payment eng gw bind_other db fullName phone email paymentId orderId amount
            status date)
       = Response 200 (Message True ''Payment saved.'')"
  using save_payment_writes_only_on_success
  by (simp add: post_api_payment_def Let_def split: option.splits list.splits
        del: sanitizeString.simps)

subsection \<open>The example submission\<close>

lemma pricing_seeded_store:
  "pricing seeded_store
   = [\<lparr>pricing_id = 1, pricing_basePrice = Fin 199, pricing_discountPercentage = Fin 85,
       pricing_lastUpdated = Fin 1700000000000\<rparr>]"
  by (simp add: seeded_store_def initializeDatabase_def insert_pricing_def empty_store_def
        next_id_def)

lemma finalPrice_199_85: "finalPrice binary64 (Fin 199) (Fin 85) = ''29.85''"
  by code_simp

lemma amount_29_85:
  "map_option (toFixed binary64 2) (parseFloat binary64 (JStr ''29.85'')) = Some ''29.85''"
  by code_simp


lemma sanitized_example:
  "sanitizeString (JStr ''Asha Rao'') = ''AshaRao''
   \<and> sanitizeString (JStr ''98765 43210'') = ''9876543210''
   \<and> sanitizeString (JStr ''asha@example.com'') = ''asha@example.com''
   \<and> sanitizeString (JStr ''pay_1'') = ''pay_1''
   \<and> sanitizeString (JStr ''order_1'') = ''order_1''
   \<and> sanitizeString (JStr ''order_2'') = ''order_2''"
  by code_simp

lemma email_example: "regex_test emailRegex ''asha@example.com''"
  by code_simp

lemma phone_example: "regex_test phoneRegex ''9876543210''"
  by code_simp


lemma lower_Success: "toLowerCase (JStr ''Success'') = Some ''success''"
  by code_simp

lemma lower_PENDING: "toLowerCase (JStr ''PENDING'') = Some ''pending''"
  by code_simp

lemma valid_success: "''success'' \<in> set validStatuses"
  by (simp add: validStatuses_def)

lemma valid_pending: "''pending'' \<in> set validStatuses"
  by (simp add: validStatuses_def)

text \<open>The checks of lines 186 to 213 pass on the example submission.\<close>

lemma format_checks_example:
  assumes "truthy orderId" and "truthy amount" and "truthy date"
    and "toLowerCase status = Some s" and "s \<in> set validStatuses"
  shows "payment_format_checks (JStr ''Asha Rao'') (JStr ''98765 43210'')
           (JStr ''asha@example.com'') orderId amount status date = None"
proof -
  obtain t where st: "status = JStr t" using assms(4) by (cases status) auto
  have "s \<noteq> []" using assms(5) by (auto simp: validStatuses_def)
  then have "truthy status" using assms(4) st by auto
  then show ?thesis
    using assms sanitized_example email_example phone_example
    by (simp add: payment_format_checks_def del: sanitizeString.simps)
qed



text \<open>What the handler does once every check has passed.\<close>

lemma post_api_payment_checked:
  assumes "payment_format_checks fullName phone email orderId amount status date = None"
    and "pricing db = row # rows"
    and "parseFloat eng amount = Some amountNum"
    and "toFixed eng 2 amountNum
         = finalPrice eng (pricing_basePrice row) (pricing_discountPercentage row)"
  shows "post_api_payment eng gw bind_other db fullName phone email paymentId orderId amount
           status date
         = (case (if truthy paymentId \<and> toLowerCase status = Some ''success''
                  then verify_payment eng gw paymentId orderId else None) of
              Some out \<Rightarrow> (out, db)
            | None \<Rightarrow>
                save_payment bind_other db (sanitizeString fullName) (sanitizeString phone)
                  (sanitizeString email)
                  (if truthy paymentId then sanitizeString paymentId else [])
                  (sanitizeString orderId) amount (pricing_basePrice row)
                  (pricing_discountPercentage row) status date)"
  using assms by (simp add: post_api_payment_def Let_def del: sanitizeString.simps)


lemma save_payment_bound:
  assumes "bind_argument bind_other amount = Some a"
    and "bind_argument bind_other status = Some st"
    and "bind_argument bind_other date = Some dt"
    and "is_finite b" and "is_finite d"
  shows "save_payment bind_other db n p e pid oid amount b d status date
         = (Response 200 (Message True ''Payment saved.''),
            insert_payment n p e pid oid a b d st dt db)"
  using assms by (simp add: save_payment_def)


lemma format_checks_PENDING:
  "payment_format_checks (JStr ''Asha Rao'') (JStr ''98765 43210'') (JStr ''asha@example.com'')
     (JStr ''order_1'') (JStr ''29.85'') (JStr ''PENDING'') (JNum (Fin 1700000000000)) = None"
  by (rule format_checks_example [OF _ _ _ lower_PENDING valid_pending]) simp_all

lemma format_checks_success_order_1:
  "payment_format_checks (JStr ''Asha Rao'') (JStr ''98765 43210'') (JStr ''asha@example.com'')
     (JStr ''order_1'') (JStr ''29.85'') (JStr ''Success'') (JNum (Fin 1700000000000)) = None"
  by (rule format_checks_example [OF _ _ _ lower_Success valid_success]) simp_all


text \<open>The amount \<^verbatim>\<open>"29.85"\<close> is the price of the seeded store.\<close>

lemma amount_matches_seeded:
  "\<exists>a. parseFloat binary64 (JStr ''29.85'') = Some a
       \<and> toFixed binary64 2 a
           = finalPrice binary64
               (pricing_basePrice \<lparr>pricing_id = 1, pricing_basePrice = Fin 199,
                  pricing_discountPercentage = Fin 85, pricing_lastUpdated = Fin 1700000000000\<rparr>)
               (pricing_discountPercentage \<lparr>pricing_id = 1, pricing_basePrice = Fin 199,
                  pricing_discountPercentage = Fin 85, pricing_lastUpdated = Fin 1700000000000\<rparr>)"
  using amount_29_85 by (auto simp: finalPrice_199_85)

theorem signature_never_checked_witness:
  "post_api_payment binary64
     (example_gateway\<lparr>RAZORPAY_KEY_SECRET := Some ''one'',
                       hmac_sha256_hex := (\<lambda>key text. key @ text)\<rparr>)
     example_client seeded_store (JStr ''Asha Rao'') (JStr ''98765 43210'')
     (JStr ''asha@example.com'') (JStr ''pay_1'') (JStr ''order_1'') (JStr ''29.85'')
     (JStr ''Success'') (JNum (Fin 1700000000000))
   = post_api_payment binary64
     (example_gateway\<lparr>RAZORPAY_KEY_SECRET := Some ''two'',
                       hmac_sha256_hex := (\<lambda>key text. rev text)\<rparr>)
     example_client seeded_store (JStr ''Asha Rao'') (JStr ''98765 43210'')
     (JStr ''asha@example.com'') (JStr ''pay_1'') (JStr ''order_1'') (JStr ''29.85'')
     (JStr ''Success'') (JNum (Fin 1700000000000))
   \<and> fst (post_api_payment binary64
       (example_gateway\<lparr>RAZORPAY_KEY_SECRET := Some ''two'',
                         hmac_sha256_hex := (\<lambda>key text. rev text)\<rparr>)
       example_client seeded_store (JStr ''Asha Rao'') (JStr ''98765 43210'')
       (JStr ''asha@example.com'') (JStr ''pay_1'') (JStr ''order_1'') (JStr ''29.85'')
       (JStr ''Success'') (JNum (Fin 1700000000000)))
     = Response 200 (Message True ''Payment saved.'')"
proof -
  obtain a where a: "parseFloat binary64 (JStr ''29.85'') = Some a"
    and m: "toFixed binary64 2 a
           = finalPrice binary64
               (pricing_basePrice \<lparr>pricing_id = 1, pricing_basePrice = Fin 199,
                  pricing_discountPercentage = Fin 85, pricing_lastUpdated = Fin 1700000000000\<rparr>)
               (pricing_discountPercentage \<lparr>pricing_id = 1, pricing_basePrice = Fin 199,
                  pricing_discountPercentage = Fin 85, pricing_lastUpdated = Fin 1700000000000\<rparr>)"
    using amount_matches_seeded by (elim exE conjE)
  have saved: "fst (post_api_payment binary64
       (example_gateway\<lparr>RAZORPAY_KEY_SECRET := Some ''two'',
                         hmac_sha256_hex := (\<lambda>key text. rev text)\<rparr>)
       example_client seeded_store (JStr ''Asha Rao'') (JStr ''98765 43210'')
       (JStr ''asha@example.com'') (JStr ''pay_1'') (JStr ''order_1'') (JStr ''29.85'')
       (JStr ''Success'') (JNum (Fin 1700000000000)))
     = Response 200 (Message True ''Payment saved.'')"
    using post_api_payment_checked [OF format_checks_success_order_1 pricing_seeded_store a m,
            of "example_gateway\<lparr>RAZORPAY_KEY_SECRET := Some ''two'',
                                 hmac_sha256_hex := (\<lambda>key text. rev text)\<rparr>"
               example_client "JStr ''pay_1''"]
    by (simp add: verify_payment_example lower_Success save_payment_bound
          del: sanitizeString.simps toLowerCase.simps)
  show ?thesis
    by (intro conjI saved signature_never_checked)
qed







section \<open>Properties of the pricing update\<close>

text \<open>
  C3 fails on the code. A body \<^verbatim>\<open>{ "basePrice": 199, "discountPercentage": 0 }\<close> has a
  positive base price and a discount inside \<open>[0, 100]\<close>, and the handler of
  \<^verbatim>\<open>POST /api/pricing\<close> answers 400: the number \<^verbatim>\<open>0\<close> is falsy, so the presence check of
  line 114 takes it for a missing field, before the range check of line 124, which
  admits 0, is reached. The store is unchanged.
\<close>

theorem zero_discount_rejected:
  "post_api_pricing eng now db (JNum (Fin 199)) (JNum (Fin 0))
   = (Response 400 (Message False ''basePrice and discountPercentage are required.''), db)"
  by (simp add: post_api_pricing_def)

theorem zero_discount_rejected_witness:
  "post_api_pricing binary64 (Fin 1700000000001) seeded_store (JNum (Fin 199)) (JNum (Fin 0))
   = (Response 400 (Message False ''basePrice and discountPercentage are required.''),
      seeded_store)"
  by (rule zero_discount_rejected)

text \<open>
  What does hold: when both fields are truthy and parse to a finite base price above 0
  and a discount within \<open>[0, 100]\<close>, and the first pricing row is the row of id 1, the
  update answers 200 and the next \<^verbatim>\<open>GET /api/pricing\<close> gives the final price computed from
  the two parsed numbers. A discount of zero sent as the text \<^verbatim>\<open>"0"\<close> is truthy and is
  accepted.
\<close>

lemma parseFloat_number: "\<exists>x. parseFloat eng (JNum n) = Some x"
  by (simp add: parseFloat_def)

lemma discount_in_range_finite:
  "\<not> isNaN d \<Longrightarrow> \<not> js_less d (Fin 0) \<Longrightarrow> \<not> js_greater d (Fin 100) \<Longrightarrow> is_finite d"
  by (cases d) (simp_all add: isNaN_def js_greater_def)

theorem pricing_update_then_get:
  assumes "truthy basePrice" and "truthy discountPercentage"
    and "parseFloat eng basePrice = Some basePriceNum"
    and "parseFloat eng discountPercentage = Some discountPercentageNum"
    and "is_finite basePriceNum" and "\<not> js_le basePriceNum (Fin 0)"
    and "\<not> isNaN discountPercentageNum"
    and "\<not> js_less discountPercentageNum (Fin 0)"
    and "\<not> js_greater discountPercentageNum (Fin 100)"
    and "pricing db = row # rows" and "pricing_id row = 1"
  shows "\<exists>b d db'.
           post_api_pricing eng now db basePrice discountPercentage
             = (Response 200
                  (PricingData (Some ''Pricing updated successfully.'') b d
                     (finalPrice eng basePriceNum discountPercentageNum)),
                db')
           \<and> (\<exists>b' d'. get_api_pricing eng db'
                 = Response 200
                     (PricingData None b' d'
                        (finalPrice eng basePriceNum discountPercentageNum)))"
proof -
  have fd: "is_finite discountPercentageNum"
    using assms(7,8,9) by (rule discount_in_range_finite)
  have nn: "\<not> isNaN basePriceNum"
    using assms(5) by (cases basePriceNum) (simp_all add: isNaN_def)
  obtain b' d' where "parseFloat eng (JNum basePriceNum) = Some b'"
    and "parseFloat eng (JNum discountPercentageNum) = Some d'"
    using parseFloat_number by blast
  with assms fd nn show ?thesis
    by (simp add: post_api_pricing_def update_pricing_def get_api_pricing_def Let_def)
qed

lemma parse_199: "parseFloat binary64 (JStr ''199'') = Some (Fin 199)"
  by code_simp

lemma parse_0: "parseFloat binary64 (JStr ''0'') = Some (Fin 0)"
  by code_simp

lemma finalPrice_199_0: "finalPrice binary64 (Fin 199) (Fin 0) = ''199.00''"
  by code_simp

theorem pricing_update_then_get_witness:
  "\<exists>b d. get_api_pricing binary64
       (snd (post_api_pricing binary64 (Fin 1700000000001) seeded_store (JStr ''199'')
               (JStr ''0'')))
     = Response 200 (PricingData None b d ''199.00'')"
proof -
  have 6: "pricing_id \<lparr>pricing_id = 1, pricing_basePrice = Fin 199,
             pricing_discountPercentage = Fin 85, pricing_lastUpdated = Fin 1700000000000\<rparr> = 1"
    by simp
  show ?thesis
    using pricing_update_then_get [OF _ _ parse_199 parse_0 _ _ _ _ _ pricing_seeded_store 6,
            of "Fin 1700000000001"]
    by (auto simp: finalPrice_199_0 isNaN_def js_greater_def)
qed

section \<open>Properties of the stored status\<close>

text \<open>
  C4 fails on the code. A submission with \<^verbatim>\<open>status\<close> \<^verbatim>\<open>"PENDING"\<close>, no \<^verbatim>\<open>paymentId\<close> and
  the amount in effect is accepted, and the row written holds \<^verbatim>\<open>"PENDING"\<close> as it was
  sent: line 211 lower-cases the status to validate it, line 252 binds the status itself.
  (The status update of line 281 binds the lower-cased status.)
\<close>

theorem submitted_status_stored_as_sent:
  "post_api_payment binary64 gw bind_other seeded_store (JStr ''Asha Rao'')
     (JStr ''98765 43210'') (JStr ''asha@example.com'') JUndefined (JStr ''order_1'')
     (JStr ''29.85'') (JStr ''PENDING'') (JNum (Fin 1700000000000))
   = (Response 200 (Message True ''Payment saved.''),
      insert_payment ''AshaRao'' ''9876543210'' ''asha@example.com'' [] ''order_1''
        (JStr ''29.85'') (Fin 199) (Fin 85) (JStr ''PENDING'') (JNum (Fin 1700000000000))
        seeded_store)
   \<and> map row_status
        (payments (insert_payment ''AshaRao'' ''9876543210'' ''asha@example.com'' [] ''order_1''
           (JStr ''29.85'') (Fin 199) (Fin 85) (JStr ''PENDING'') (JNum (Fin 1700000000000))
           seeded_store))
     = [JStr ''PENDING'']
   \<and> ''PENDING'' \<notin> set validStatuses"
proof -
  obtain a where a: "parseFloat binary64 (JStr ''29.85'') = Some a"
    and m: "toFixed binary64 2 a
           = finalPrice binary64
               (pricing_basePrice \<lparr>pricing_id = 1, pricing_basePrice = Fin 199,
                  pricing_discountPercentage = Fin 85, pricing_lastUpdated = Fin 1700000000000\<rparr>)
               (pricing_discountPercentage \<lparr>pricing_id = 1, pricing_basePrice = Fin 199,
                  pricing_discountPercentage = Fin 85, pricing_lastUpdated = Fin 1700000000000\<rparr>)"
    using amount_matches_seeded by (elim exE conjE)
  have s: "sanitizeString (JStr ''Asha Rao'') = ''AshaRao''"
          "sanitizeString (JStr ''98765 43210'') = ''9876543210''"
          "sanitizeString (JStr ''asha@example.com'') = ''asha@example.com''"
          "sanitizeString (JStr ''order_1'') = ''order_1''"
    using sanitized_example by blast+
  have 1: "post_api_payment binary64 gw bind_other seeded_store (JStr ''Asha Rao'')
     (JStr ''98765 43210'') (JStr ''asha@example.com'') JUndefined (JStr ''order_1'')
     (JStr ''29.85'') (JStr ''PENDING'') (JNum (Fin 1700000000000))
   = (Response 200 (Message True ''Payment saved.''),
      insert_payment ''AshaRao'' ''9876543210'' ''asha@example.com'' [] ''order_1''
        (JStr ''29.85'') (Fin 199) (Fin 85) (JStr ''PENDING'') (JNum (Fin 1700000000000))
        seeded_store)"
    using post_api_payment_checked [OF format_checks_PENDING pricing_seeded_store a m,
            of gw bind_other JUndefined]
    by (simp add: s save_payment_bound del: sanitizeString.simps)
  have p: "payments seeded_store = []"
    by (simp add: seeded_store_def initializeDatabase_def insert_pricing_def empty_store_def
          Let_def)
  have 2: "map row_status
        (payments (insert_payment ''AshaRao'' ''9876543210'' ''asha@example.com'' [] ''order_1''
           (JStr ''29.85'') (Fin 199) (Fin 85) (JStr ''PENDING'') (JNum (Fin 1700000000000))
           seeded_store))
     = [JStr ''PENDING'']"
    by (simp add: payments_insert_payment p)
  have 3: "''PENDING'' \<notin> set validStatuses"
    by (simp add: validStatuses_def)
  from 1 2 3 show ?thesis by (simp only: simp_thms)
qed

theorem submitted_status_stored_as_sent_witness:
  "fst (post_api_payment binary64 example_gateway example_client seeded_store (JStr ''Asha Rao'')
     (JStr ''98765 43210'') (JStr ''asha@example.com'') JUndefined (JStr ''order_1'')
     (JStr ''29.85'') (JStr ''PENDING'') (JNum (Fin 1700000000000)))
   = Response 200 (Message True ''Payment saved.'')"
  using submitted_status_stored_as_sent [of example_gateway example_client] by simp

end
